theory Spec2Isabelle
  imports Main "HOL-Library.Word" "HOL-Library.Log_Nat"
begin

unbundle bit_operations_syntax

section \<open>The FXOS8700 accelerometer and magnetometer driver\<close>

text \<open>
  A shallow embedding of \<^verbatim>\<open>nxp_imu/FXOS8700.py\<close>: the class \<^verbatim>\<open>FXOS8700\<close> with its
  constructor, \<^verbatim>\<open>temperature\<close> and \<^verbatim>\<open>get\<close>. Register addresses and data bytes are
  8-bit words, Python's unbounded integers are \<open>int\<close>, Python's floats are binary64
  values, and every \<^verbatim>\<open>raise\<close> is a value of the type \<open>error\<close>.
\<close>

subsection \<open>Python floats\<close>

text \<open>
  A Python float is an IEEE 754 binary64 number. A finite one is modelled by the rational
  it denotes, and every operation rounds its exact result to the nearest binary64 value,
  ties to the even significand: 53 significant bits, and below \<open>2\<^sup>-\<^sup>1\<^sup>0\<^sup>2\<^sup>2\<close> the fixed
  spacing \<open>2\<^sup>-\<^sup>1\<^sup>0\<^sup>7\<^sup>4\<close> of the subnormal numbers. Infinities, NaN and the sign of zero are
  outside the model: the driver only multiplies signed 16-bit counts by constants below
  1, which stays far inside the finite range, and a zero product only arises from the
  count 0, whose product with a positive constant is \<open>0.0\<close>.
\<close>

type_synonym pyfloat = rat

definition pow2 :: "int \<Rightarrow> rat" where
  "pow2 e = (if 0 \<le> e then 2 ^ nat e else 1 / 2 ^ nat (- e))"

definition round_half_even :: "rat \<Rightarrow> int" where
  "round_half_even r =
     (let f = \<lfloor>r\<rfloor>; d = r - of_int f
      in if d < 1 / 2 then f
         else if 1 / 2 < d then f + 1
         else if even f then f else f + 1)"

text \<open>The binary exponent of a rational \<open>q \<noteq> 0\<close>: the \<open>e\<close> with \<open>2\<^sup>e \<le> |q| < 2\<^sup>e\<^sup>+\<^sup>1\<close>.\<close>

definition ilog2 :: "rat \<Rightarrow> int" where
  "ilog2 q =
     (let (a, b) = quotient_of \<bar>q\<bar>; e0 = bitlen a - bitlen b
      in if pow2 e0 \<le> \<bar>q\<bar> then e0 else e0 - 1)"

definition round_to_double :: "rat \<Rightarrow> pyfloat" where
  "round_to_double q =
     (if q = 0 then 0
      else let u = max (ilog2 q - 52) (- 1074)
           in of_int (round_half_even (q / pow2 u)) * pow2 u)"

text \<open>A decimal literal of the source denotes the binary64 value nearest to it.\<close>

definition float_literal :: "rat \<Rightarrow> pyfloat" where
  "float_literal q = round_to_double q"

text \<open>
  \<^verbatim>\<open>x * f\<close> for an int \<open>x\<close> and a float \<open>f\<close>: Python converts \<open>x\<close> to a float
  (correctly rounded) and multiplies the two floats.
\<close>

definition py_mul_int_float :: "int \<Rightarrow> pyfloat \<Rightarrow> pyfloat" where
  "py_mul_int_float x f = round_to_double (round_to_double (of_int x) * f)"

subsection \<open>Constants of the module\<close>

type_synonym byte = "8 word"

definition FXOS8700_ADDRESS :: byte where "FXOS8700_ADDRESS = 0x1E"
definition FXOS8700_ID :: byte where "FXOS8700_ID = 0xC7"

definition FXOS8700_REGISTER_OUT_X_MSB :: byte where "FXOS8700_REGISTER_OUT_X_MSB = 0x01"
definition FXOS8700_REGISTER_WHO_AM_I :: byte where "FXOS8700_REGISTER_WHO_AM_I = 0x0D"
definition FXOS8700_REGISTER_XYZ_DATA_CFG :: byte where "FXOS8700_REGISTER_XYZ_DATA_CFG = 0x0E"
definition FXOS8700_REGISTER_CTRL_REG1 :: byte where "FXOS8700_REGISTER_CTRL_REG1 = 0x2A"
definition FXOS8700_REGISTER_CTRL_REG2 :: byte where "FXOS8700_REGISTER_CTRL_REG2 = 0x2B"
definition FXOS8700_REGISTER_TEMPERATURE :: byte where "FXOS8700_REGISTER_TEMPERATURE = 0x51"
definition FXOS8700_REGISTER_MCTRL_REG1 :: byte where "FXOS8700_REGISTER_MCTRL_REG1 = 0x5B"

definition ACCEL_RANGE_2G :: byte where "ACCEL_RANGE_2G = 0x00"
definition ACCEL_RANGE_4G :: byte where "ACCEL_RANGE_4G = 0x01"
definition ACCEL_RANGE_8G :: byte where "ACCEL_RANGE_8G = 0x02"

definition ACCEL_MG_LSB_2G :: pyfloat where "ACCEL_MG_LSB_2G = float_literal (244 / 1000000)"
definition ACCEL_MG_LSB_4G :: pyfloat where "ACCEL_MG_LSB_4G = float_literal (488 / 1000000)"
definition ACCEL_MG_LSB_8G :: pyfloat where "ACCEL_MG_LSB_8G = float_literal (976 / 1000000)"
definition MAG_UT_LSB :: pyfloat where "MAG_UT_LSB = float_literal (1 / 10)"

subsection \<open>The bus\<close>

text \<open>
  The class derives from \<^verbatim>\<open>I2C\<close>, whose module is not part of the sources at hand.
  The driver uses three of its methods, \<^verbatim>\<open>read8\<close>, \<^verbatim>\<open>write8\<close> and
  \<^verbatim>\<open>read_block\<close>. The transport is a parameter of the model: what the device answers
  to a read may depend on everything done on the bus before, and every operation is
  appended to the log \<open>ops\<close>.
\<close>

datatype bus_op = Read8 byte | Write8 byte byte | ReadBlock byte nat

record bus =
  reg_read :: "bus_op list \<Rightarrow> byte \<Rightarrow> byte"
  block_read :: "bus_op list \<Rightarrow> byte \<Rightarrow> nat \<Rightarrow> byte list"
  ops :: "bus_op list"

text \<open>The object: the attribute \<^verbatim>\<open>scale\<close> (\<^verbatim>\<open>None\<close> in the class) and the bus handle.\<close>

record fxos8700 =
  scale :: "pyfloat option"
  i2c :: bus

text \<open>
  Modelled from the spec: the three transport methods of \<^verbatim>\<open>I2C\<close> (section 6: read one
  byte from a register, write one byte to a register, read \<open>count\<close> consecutive bytes),
  here over the recording bus above.
\<close>

definition read8 :: "fxos8700 \<Rightarrow> byte \<Rightarrow> byte \<times> fxos8700" where
  "read8 self reg =
     (let b = i2c self
      in (reg_read b (ops b) reg, self\<lparr>i2c := b\<lparr>ops := ops b @ [Read8 reg]\<rparr>\<rparr>))"

definition write8 :: "fxos8700 \<Rightarrow> byte \<Rightarrow> byte \<Rightarrow> fxos8700" where
  "write8 self reg data =
     (let b = i2c self in self\<lparr>i2c := b\<lparr>ops := ops b @ [Write8 reg data]\<rparr>\<rparr>)"

definition read_block :: "fxos8700 \<Rightarrow> byte \<Rightarrow> nat \<Rightarrow> byte list \<times> fxos8700" where
  "read_block self reg count =
     (let b = i2c self
      in (block_read b (ops b) reg count,
          self\<lparr>i2c := b\<lparr>ops := ops b @ [ReadBlock reg count]\<rparr>\<rparr>))"

text \<open>The register writes among the bus operations, in order.\<close>

fun writes :: "bus_op list \<Rightarrow> (byte \<times> byte) list" where
  "writes [] = []"
| "writes (Write8 reg data # os) = (reg, data) # writes os"
| "writes (_ # os) = writes os"

subsection \<open>Errors and \<^verbatim>\<open>struct.unpack\<close>\<close>

text \<open>
  The two \<^verbatim>\<open>raise Exception(...)\<close> of the constructor, the \<^verbatim>\<open>struct.error\<close> of
  \<^verbatim>\<open>struct.unpack\<close> on a buffer of the wrong size, and the \<^verbatim>\<open>TypeError\<close> of
  multiplying an int by \<^verbatim>\<open>None\<close>.
\<close>

datatype error =
    ErrorTalking byte
  | InvalidAccelRange "int option"
  | StructError
  | TypeError

text \<open>Format \<^verbatim>\<open>'b'\<close>: one byte as a signed char.\<close>

definition unpack_b :: "byte \<Rightarrow> int" where
  "unpack_b x = (let v = int (unat x) in if 128 \<le> v then v - 256 else v)"

text \<open>Format \<^verbatim>\<open>'>h'\<close>: two bytes, most significant first, as a signed short.\<close>

definition unpack_h_be :: "byte \<Rightarrow> byte \<Rightarrow> int" where
  "unpack_h_be hi lo =
     (let v = int (unat hi) * 256 + int (unat lo) in if 32768 \<le> v then v - 65536 else v)"

fun unpack_shorts :: "byte list \<Rightarrow> int list" where
  "unpack_shorts (hi # lo # rest) = unpack_h_be hi lo # unpack_shorts rest"
| "unpack_shorts _ = []"

text \<open>\<^verbatim>\<open>struct.unpack('>hhhhhh', data)\<close>: the buffer must hold exactly 12 bytes.\<close>

definition struct_unpack_hhhhhh :: "byte list \<Rightarrow> error + int list" where
  "struct_unpack_hhhhhh data =
     (if length data \<noteq> 12 then Inl StructError else Inr (unpack_shorts data))"

subsection \<open>The methods\<close>

definition temperature :: "fxos8700 \<Rightarrow> int \<times> fxos8700" where
  "temperature self =
     (let (x, self1) = read8 self FXOS8700_REGISTER_TEMPERATURE
      in (unpack_b x, self1))"

text \<open>
  The constructor, run on the fresh object. \<open>gs\<close> is \<open>None\<close> when the argument is
  omitted. The \<^verbatim>\<open>print\<close> calls of the verbose branch leave no trace here, the call of
  \<^verbatim>\<open>temperature\<close> among them does.
\<close>

definition FXOS8700_init :: "int option \<Rightarrow> bool \<Rightarrow> fxos8700 \<Rightarrow> (error + unit) \<times> fxos8700" where
  "FXOS8700_init gs verbose self =
     (let (who, self1) = read8 self FXOS8700_REGISTER_WHO_AM_I
      in if who \<noteq> FXOS8700_ID then (Inl (ErrorTalking FXOS8700_ADDRESS), self1)
         else
           let self2 = write8 self1 FXOS8700_REGISTER_CTRL_REG1 0;
               configured =
                 (if gs = Some 2 \<or> gs = None then
                    Inr ((write8 self2 FXOS8700_REGISTER_XYZ_DATA_CFG ACCEL_RANGE_2G)
                           \<lparr>scale := Some ACCEL_MG_LSB_2G\<rparr>)
                  else if gs = Some 4 then
                    Inr ((write8 self2 FXOS8700_REGISTER_XYZ_DATA_CFG ACCEL_RANGE_4G)
                           \<lparr>scale := Some ACCEL_MG_LSB_4G\<rparr>)
                  else if gs = Some 8 then
                    Inr ((write8 self2 FXOS8700_REGISTER_XYZ_DATA_CFG ACCEL_RANGE_8G)
                           \<lparr>scale := Some ACCEL_MG_LSB_8G\<rparr>)
                  else Inl (InvalidAccelRange gs))
           in case configured of
                Inl e \<Rightarrow> (Inl e, self2)
              | Inr self3 \<Rightarrow>
                  let self4 = write8 self3 FXOS8700_REGISTER_CTRL_REG2 0x02;
                      self5 = write8 self4 FXOS8700_REGISTER_MCTRL_REG1 0x00;
                      self6 = write8 self5 FXOS8700_REGISTER_CTRL_REG1 0x5
                  in if verbose then (Inr (), snd (temperature self6)) else (Inr (), self6))"

text \<open>The object before \<^verbatim>\<open>__init__\<close> runs on it, and the constructor call.\<close>

definition new_object :: "bus \<Rightarrow> fxos8700" where
  "new_object b = \<lparr>scale = None, i2c = b\<rparr>"

definition FXOS8700 :: "int option \<Rightarrow> bus \<Rightarrow> bool \<Rightarrow> (error + unit) \<times> fxos8700" where
  "FXOS8700 gs b verbose = FXOS8700_init gs verbose (new_object b)"

text \<open>\<^verbatim>\<open>get\<close>: the two tuples are returned as lists.\<close>

definition get :: "fxos8700 \<Rightarrow> (error + pyfloat list \<times> pyfloat list) \<times> fxos8700" where
  "get self =
     (let (data, self1) = read_block self 0x1 12
      in case struct_unpack_hhhhhh data of
           Inl e \<Rightarrow> (Inl e, self1)
         | Inr data' \<Rightarrow>
             (case scale self1 of
                None \<Rightarrow> (Inl TypeError, self1)
              | Some s \<Rightarrow>
                  let d = take 3 data';
                      accel = map (\<lambda>x. py_mul_int_float (drop_bit 2 x) s) d;
                      d' = drop 3 data';
                      mag = map (\<lambda>x. py_mul_int_float x MAG_UT_LSB) d'
                  in (Inr (accel, mag), self1)))"

text \<open>A client calling the two methods in any order on a constructed driver.\<close>

datatype call = CallTemperature | CallGet

fun do_call :: "call \<Rightarrow> fxos8700 \<Rightarrow> fxos8700" where
  "do_call CallTemperature self = snd (temperature self)"
| "do_call CallGet self = snd (get self)"

definition do_calls :: "call list \<Rightarrow> fxos8700 \<Rightarrow> fxos8700" where
  "do_calls cs self = fold do_call cs self"

text \<open>The values written to one register, in order.\<close>

definition writes_to :: "byte \<Rightarrow> bus_op list \<Rightarrow> byte list" where
  "writes_to reg os = map snd (filter (\<lambda>w. fst w = reg) (writes os))"

text \<open>
  A recording transport for concrete runs: the device answers \<open>who\<close> at WHO_AM_I and
  0x19 at every other register, and \<open>burst\<close> to every block read; nothing has happened
  on the bus yet.
\<close>

definition mock_bus :: "byte \<Rightarrow> byte list \<Rightarrow> bus" where
  "mock_bus who burst =
     \<lparr>reg_read = (\<lambda>_ reg. if reg = 0x0D then who else 0x19),
      block_read = (\<lambda>_ _ _. burst),
      ops = []\<rparr>"

subsection \<open>The decoding as the specification words it\<close>

text \<open>
  The specification describes \<^verbatim>\<open>get\<close> on the six 16-bit fields of the burst: a field
  is the two's complement word made of two bytes, most significant first; an acceleration
  is the field shifted right arithmetically by two bits, times the scale; a magnetic
  field is the full field times 0.1. These definitions follow that wording, on machine
  words; the theorems below compare them with what \<open>get\<close> computes.
\<close>

definition field16 :: "byte \<Rightarrow> byte \<Rightarrow> 16 word" where
  "field16 hi lo = word_cat hi lo"

definition spec_accel :: "16 word \<Rightarrow> pyfloat \<Rightarrow> pyfloat" where
  "spec_accel w s = py_mul_int_float (sint (signed_drop_bit 2 w)) s"

definition spec_mag :: "16 word \<Rightarrow> pyfloat" where
  "spec_mag w = py_mul_int_float (sint w) (float_literal (1 / 10))"

section \<open>Decoding bytes\<close>

text \<open>
  \<^verbatim>\<open>struct.unpack\<close> reads two's complement: the arithmetic of \<open>unpack_b\<close> and
  \<open>unpack_h_be\<close> is \<open>sint\<close> on the 8-bit word and on the 16-bit word made of the two
  bytes, and Python's \<^verbatim>\<open>>>\<close> on the unpacked integer is the arithmetic shift of that
  word.
\<close>

lemma centred_mod:
  fixes u m :: int
  assumes "0 \<le> u" "u < 2 * m"
  shows "(u + m) mod (2 * m) - m = (if m \<le> u then u - 2 * m else u)"
proof (cases "m \<le> u")
  case True
  have "(u + m) mod (2 * m) = (u + m - 2 * m) mod (2 * m)"
    by (simp only: minus_mod_self2)
  also have "u + m - 2 * m = u - m"
    by simp
  also have "(u - m) mod (2 * m) = u - m"
    using True assms by (intro mod_pos_pos_trivial) simp_all
  finally show ?thesis using True by simp
next
  case False
  then have "(u + m) mod (2 * m) = u + m"
    using assms by (intro mod_pos_pos_trivial) simp_all
  then show ?thesis using False by simp
qed

lemma sint_byte: "sint (x::byte) = (if 128 \<le> uint x then uint x - 256 else uint x)"
proof -
  have "sint x = (uint x + 128) mod (2 * 128) - 128"
    by (simp add: sint_uint signed_take_bit_eq_take_bit_shift take_bit_eq_mod)
  moreover have "0 \<le> uint x" and "uint x < 2 * 128"
    using uint_lt2p [of x] by simp_all
  ultimately show ?thesis
    using centred_mod [of "uint x" 128] by simp
qed

lemma unpack_b_sint: "unpack_b x = sint x"
  by (simp add: unpack_b_def sint_byte Let_def)

lemma sint_short: "sint (w::16 word) = (if 32768 \<le> uint w then uint w - 65536 else uint w)"
proof -
  have "sint w = (uint w + 32768) mod (2 * 32768) - 32768"
    by (simp add: sint_uint signed_take_bit_eq_take_bit_shift take_bit_eq_mod)
  moreover have "0 \<le> uint w" and "uint w < 2 * 32768"
    using uint_lt2p [of w] by simp_all
  ultimately show ?thesis
    using centred_mod [of "uint w" 32768] by simp
qed

lemma uint_word_cat_bytes:
  "uint (word_cat (hi::byte) (lo::byte) :: 16 word) = uint hi * 256 + uint lo"
proof -
  have b: "0 \<le> uint hi" "uint hi < 256" "0 \<le> uint lo" "uint lo < 256"
    using uint_lt2p [of hi] uint_lt2p [of lo] by simp_all
  have "uint (word_cat hi lo :: 16 word) = take_bit 16 (concat_bit 8 (uint lo) (uint hi))"
    by (simp only: word_cat_eq' uint_word_of_int_eq len_bit0 len_num1) simp
  also have "\<dots> = (uint lo mod 256 + uint hi * 256) mod 65536"
    by (simp add: concat_bit_eq take_bit_eq_mod push_bit_eq_mult)
  also have "\<dots> = uint hi * 256 + uint lo"
    using b by simp
  finally show ?thesis .
qed

lemma unpack_h_be_uint:
  "unpack_h_be hi lo =
     (if 32768 \<le> uint hi * 256 + uint lo then uint hi * 256 + uint lo - 65536
      else uint hi * 256 + uint lo)"
  unfolding unpack_h_be_def Let_def by (simp only: of_nat_unat) 

lemma unpack_h_be_sint: "unpack_h_be hi lo = sint (word_cat hi lo :: 16 word)"
  by (simp only: unpack_h_be_uint sint_short uint_word_cat_bytes)

lemma shift_short:
  "drop_bit 2 (unpack_h_be hi lo) = sint (signed_drop_bit 2 (word_cat hi lo :: 16 word))"
  by (simp add: unpack_h_be_sint sint_signed_drop_bit_eq)

section \<open>Rounding to binary64\<close>

text \<open>
  Three facts about the float model: the exponent found by \<open>ilog2\<close> is not too large,
  an integer below \<open>2\<^sup>5\<^sup>3\<close> in magnitude converts exactly, and a negative number of at
  least the smallest subnormal magnitude does not round to zero.
\<close>

lemma pow2_powi: "pow2 e = 2 powi e"
  by (simp add: pow2_def power_int_def power_one_over inverse_eq_divide)

lemma pow2_pos: "0 < pow2 e"
  by (simp add: pow2_powi)

lemma pow2_mono: "a \<le> b \<Longrightarrow> pow2 a \<le> pow2 b"
  by (simp add: pow2_powi power_int_increasing)

lemma round_half_even_of_int: "round_half_even (of_int k) = k"
  by (simp add: round_half_even_def)

lemma round_half_even_le_minus_1:
  assumes "r \<le> - 1"
  shows "round_half_even r \<le> - 1"
proof -
  have f: "of_int \<lfloor>r\<rfloor> \<le> r"
    by simp
  with assms have "\<lfloor>r\<rfloor> \<le> - 1"
    by linarith
  moreover have "\<lfloor>r\<rfloor> \<le> - 2" if "1 / 2 \<le> r - of_int \<lfloor>r\<rfloor>"
  proof -
    from that assms have "(of_int \<lfloor>r\<rfloor> :: rat) < - 1"
      by linarith
    then have "\<lfloor>r\<rfloor> < - 1"
      by linarith
    then show ?thesis by linarith
  qed
  ultimately show ?thesis
    unfolding round_half_even_def Let_def by (auto simp: not_less)
qed

lemma ilog2_le:
  assumes "q \<noteq> 0"
  shows "pow2 (ilog2 q) \<le> \<bar>q\<bar>"
proof -
  obtain a b where ab: "quotient_of \<bar>q\<bar> = (a, b)"
    by (cases "quotient_of \<bar>q\<bar>")
  then have b: "0 < b" and q: "\<bar>q\<bar> = of_int a / of_int b"
    by (simp_all add: quotient_of_denom_pos quotient_of_div)
  from assms have "0 < \<bar>q\<bar>" by simp
  with q b have a: "0 < a"
    by (simp add: zero_less_divide_iff)
  define e0 where "e0 = bitlen a - bitlen b"
  show ?thesis
  proof (cases "pow2 e0 \<le> \<bar>q\<bar>")
    case True
    then show ?thesis
      by (simp add: ilog2_def ab e0_def)
  next
    case False
    have la: "1 \<le> bitlen a" and lb: "1 \<le> bitlen b"
      using a b bitlen_eq_zero_iff [of a] bitlen_eq_zero_iff [of b] bitlen_nonneg [of a]
        bitlen_nonneg [of b] by linarith+
    have "2 ^ nat (bitlen a - 1) \<le> a" and "b < 2 ^ nat (bitlen b)"
      using bitlen_bounds [OF a] bitlen_bounds [OF b] by simp_all
    then have "(of_int (2 ^ nat (bitlen a - 1)) :: rat) \<le> of_int a"
      and "(of_int b :: rat) \<le> of_int (2 ^ nat (bitlen b))"
      by (simp_all only: of_int_le_iff less_imp_le)
    then have "(2::rat) ^ nat (bitlen a - 1) \<le> of_int a"
      and "of_int b \<le> (2::rat) ^ nat (bitlen b)"
      by simp_all
    then have "(2::rat) powi (bitlen a - 1) \<le> of_int a" and "of_int b \<le> (2::rat) powi (bitlen b)"
      using la lb by (simp_all add: power_int_def)
    then have "(2::rat) powi (bitlen a - 1) / 2 powi (bitlen b) \<le> of_int a / of_int b"
      using a b by (intro frac_le) simp_all
    moreover have "e0 - 1 = (bitlen a - 1) - bitlen b"
      by (simp add: e0_def)
    then have "pow2 (e0 - 1) = 2 powi (bitlen a - 1) / 2 powi (bitlen b)"
      by (simp only: pow2_powi) (rule power_int_diff, simp)
    ultimately have "pow2 (e0 - 1) \<le> \<bar>q\<bar>"
      by (simp only: q)
    with False show ?thesis
      by (simp add: ilog2_def ab e0_def)
  qed
qed

lemma round_to_double_neg:
  assumes "q \<le> - pow2 (- 1074)"
  shows "round_to_double q < 0"
proof -
  have q0: "q < 0"
    using assms pow2_pos [of "- 1074"] by linarith
  define u where "u = max (ilog2 q - 52) (- 1074)"
  have "pow2 u \<le> - q"
  proof (cases "ilog2 q - 52 \<le> - 1074")
    case True
    then show ?thesis using assms by (simp add: u_def max_def)
  next
    case False
    then have "u = ilog2 q - 52" by (simp add: u_def)
    then have "pow2 u \<le> pow2 (ilog2 q)"
      by (simp add: pow2_mono)
    also have "\<dots> \<le> \<bar>q\<bar>"
      using q0 by (intro ilog2_le) simp
    finally show ?thesis using q0 by simp
  qed
  then have "q / pow2 u \<le> - 1"
    using pow2_pos [of u] by (simp add: pos_divide_le_eq)
  then have "round_half_even (q / pow2 u) \<le> - 1"
    by (rule round_half_even_le_minus_1)
  then have "(of_int (round_half_even (q / pow2 u)) :: rat) \<le> of_int (- 1)"
    by (simp only: of_int_le_iff)
  then have "(of_int (round_half_even (q / pow2 u)) :: rat) \<le> - 1"
    by simp
  then have "of_int (round_half_even (q / pow2 u)) * pow2 u < 0"
    using pow2_pos [of u] by (simp add: mult_less_0_iff)
  then show ?thesis
    using q0 by (simp add: round_to_double_def u_def Let_def)
qed

lemma round_to_double_of_int:
  assumes "\<bar>x\<bar> < 2 ^ 53"
  shows "round_to_double (of_int x) = of_int x"
proof (cases "x = 0")
  case True
  then show ?thesis by (simp add: round_to_double_def)
next
  case False
  define q :: rat where "q = of_int x"
  have q0: "q \<noteq> 0" using False by (simp add: q_def)
  define u where "u = max (ilog2 q - 52) (- 1074)"
  have "\<bar>q\<bar> < 2 ^ 53"
  proof -
    have "(of_int \<bar>x\<bar> :: rat) < of_int (2 ^ 53)"
      using assms by (simp only: of_int_less_iff)
    then show ?thesis by (simp add: q_def)
  qed
  then have "pow2 (ilog2 q) < pow2 53"
    using ilog2_le [OF q0] by (simp add: pow2_def)
  then have "ilog2 q < 53"
    using pow2_mono [of 53 "ilog2 q"] by linarith
  then have u: "u \<le> 0"
    by (simp add: u_def)
  define n where "n = nat (- u)"
  have p: "pow2 u = 1 / 2 ^ n"
    using u by (cases "u = 0") (simp_all add: pow2_def n_def)
  have "q / pow2 u = of_int (x * 2 ^ n)"
    by (simp add: p q_def)
  then have "round_half_even (q / pow2 u) = x * 2 ^ n"
    by (simp only: round_half_even_of_int)
  then have "of_int (round_half_even (q / pow2 u)) * pow2 u = q"
    by (simp add: p q_def)
  then show ?thesis
    using q0 by (simp add: round_to_double_def u_def q_def Let_def)
qed

lemma py_mul_int_float_neg:
  assumes "x < 0" and "- (2 ^ 53) < x" and "pow2 (- 1074) \<le> s"
  shows "py_mul_int_float x s < 0"
proof -
  have "round_to_double (of_int x) = of_int x"
    using assms by (intro round_to_double_of_int) simp
  moreover have "of_int x * s \<le> - pow2 (- 1074)"
  proof -
    have "x \<le> - 1"
      using assms(1) by simp
    then have "(of_int x :: rat) \<le> of_int (- 1)"
      by (simp only: of_int_le_iff)
    then have "(of_int x :: rat) \<le> - 1"
      by simp
    moreover have "0 < s"
      using assms(3) pow2_pos [of "- 1074"] by linarith
    ultimately have "of_int x * s \<le> - 1 * s"
      by (intro mult_right_mono) simp_all
    then show ?thesis using assms(3) by simp
  qed
  ultimately show ?thesis
    by (simp add: py_mul_int_float_def round_to_double_neg)
qed

section \<open>The constructor, case by case\<close>

lemmas reg_defs = FXOS8700_ADDRESS_def FXOS8700_ID_def FXOS8700_REGISTER_WHO_AM_I_def
  FXOS8700_REGISTER_XYZ_DATA_CFG_def FXOS8700_REGISTER_CTRL_REG1_def
  FXOS8700_REGISTER_CTRL_REG2_def FXOS8700_REGISTER_TEMPERATURE_def
  FXOS8700_REGISTER_MCTRL_REG1_def ACCEL_RANGE_2G_def ACCEL_RANGE_4G_def ACCEL_RANGE_8G_def

lemma writes_append: "writes (xs @ ys) = writes xs @ writes ys"
  by (induction xs rule: writes.induct) simp_all

lemma init_mismatch:
  assumes "reg_read b (ops b) 0x0D \<noteq> 0xC7"
  shows "FXOS8700 gs b verbose =
    (Inl (ErrorTalking 0x1E), \<lparr>scale = None, i2c = b\<lparr>ops := ops b @ [Read8 0x0D]\<rparr>\<rparr>)"
  using assms
  by (simp add: FXOS8700_def FXOS8700_init_def new_object_def read8_def reg_defs Let_def)

lemma init_invalid:
  assumes "reg_read b (ops b) 0x0D = 0xC7" and "gs \<notin> {None, Some 2, Some 4, Some 8}"
  shows "FXOS8700 gs b verbose =
    (Inl (InvalidAccelRange gs),
     \<lparr>scale = None, i2c = b\<lparr>ops := ops b @ [Read8 0x0D, Write8 0x2A 0]\<rparr>\<rparr>)"
  using assms
  by (simp add: FXOS8700_def FXOS8700_init_def new_object_def read8_def write8_def reg_defs
      Let_def)

lemma init_valid:
  assumes "reg_read b (ops b) 0x0D = 0xC7" and "gs \<in> {None, Some 2, Some 4, Some 8}"
  shows "FXOS8700 gs b verbose =
    (Inr (),
     \<lparr>scale = Some (if gs = Some 4 then ACCEL_MG_LSB_4G
                     else if gs = Some 8 then ACCEL_MG_LSB_8G else ACCEL_MG_LSB_2G),
      i2c = b\<lparr>ops := ops b @
        [Read8 0x0D, Write8 0x2A 0,
         Write8 0x0E (if gs = Some 4 then 1 else if gs = Some 8 then 2 else 0),
         Write8 0x2B 2, Write8 0x5B 0, Write8 0x2A 5]
        @ (if verbose then [Read8 0x51] else [])\<rparr>\<rparr>)"
  using assms
  by (auto simp add: FXOS8700_def FXOS8700_init_def new_object_def read8_def write8_def
      temperature_def reg_defs Let_def)

section \<open>The module's float constants and \<^verbatim>\<open>get\<close>, case by case\<close>

text \<open>
  The binary64 values of the four literals, as \<^verbatim>\<open>float.as_integer_ratio\<close> gives them.
\<close>

lemma scale_constants:
  "ACCEL_MG_LSB_2G = 9002011107970261 / 36893488147419103232"
  "ACCEL_MG_LSB_4G = 9002011107970261 / 18446744073709551616"
  "ACCEL_MG_LSB_8G = 9002011107970261 / 9223372036854775808"
  "MAG_UT_LSB = 3602879701896397 / 36028797018963968"
  by code_simp+

lemma scale_constants_lower:
  "pow2 (- 1074) \<le> ACCEL_MG_LSB_2G" "pow2 (- 1074) \<le> ACCEL_MG_LSB_4G"
  "pow2 (- 1074) \<le> ACCEL_MG_LSB_8G"
proof -
  have "pow2 (- 1074) \<le> pow2 (- 13)"
    by (rule pow2_mono) simp
  moreover have "pow2 (- 13) = 1 / 8192"
    by (simp add: pow2_def)
  ultimately have "pow2 (- 1074) \<le> 1 / 8192"
    by simp
  then show "pow2 (- 1074) \<le> ACCEL_MG_LSB_2G" "pow2 (- 1074) \<le> ACCEL_MG_LSB_4G"
    "pow2 (- 1074) \<le> ACCEL_MG_LSB_8G"
    by (simp_all add: scale_constants)
qed

lemma get_twelve:
  assumes "block_read (i2c self) (ops (i2c self)) 0x01 12
      = [a0, a1, a2, a3, a4, a5, m0, m1, m2, m3, m4, m5]"
    and "scale self = Some s"
  shows "get self =
    (Inr ([py_mul_int_float (drop_bit 2 (unpack_h_be a0 a1)) s,
           py_mul_int_float (drop_bit 2 (unpack_h_be a2 a3)) s,
           py_mul_int_float (drop_bit 2 (unpack_h_be a4 a5)) s],
          [py_mul_int_float (unpack_h_be m0 m1) MAG_UT_LSB,
           py_mul_int_float (unpack_h_be m2 m3) MAG_UT_LSB,
           py_mul_int_float (unpack_h_be m4 m5) MAG_UT_LSB]),
     self\<lparr>i2c := (i2c self)\<lparr>ops := ops (i2c self) @ [ReadBlock 0x01 12]\<rparr>\<rparr>)"
  using assms
  by (simp add: get_def read_block_def struct_unpack_hhhhhh_def Let_def numeral_3_eq_3)

lemma get_wrong_length:
  assumes "length (block_read (i2c self) (ops (i2c self)) 0x01 12) \<noteq> 12"
  shows "get self =
    (Inl StructError, self\<lparr>i2c := (i2c self)\<lparr>ops := ops (i2c self) @ [ReadBlock 0x01 12]\<rparr>\<rparr>)"
  using assms
  by (simp add: get_def read_block_def struct_unpack_hhhhhh_def Let_def)

lemma scale_get: "scale (snd (get self)) = scale self"
  by (simp add: get_def read_block_def Let_def split: sum.splits option.splits)

lemma scale_temperature: "scale (snd (temperature self)) = scale self"
  by (simp add: temperature_def read8_def Let_def)

lemma scale_do_calls: "scale (do_calls cs self) = scale self"
  unfolding do_calls_def
proof (induction cs arbitrary: self)
  case Nil
  show ?case by simp
next
  case (Cons c cs)
  show ?case
    by (cases c) (simp_all add: Cons.IH scale_get scale_temperature)
qed

lemma get_no_type_error:
  assumes "scale self = Some s"
  shows "fst (get self) \<noteq> Inl TypeError"
  using assms
  by (simp add: get_def read_block_def struct_unpack_hhhhhh_def Let_def split: sum.splits)

lemma writes_to_append: "writes_to reg (xs @ ys) = writes_to reg xs @ writes_to reg ys"
  by (simp add: writes_to_def writes_append)

lemma mock_driver:
  assumes "gs \<in> {None, Some 2, Some 4, Some 8}"
  shows "FXOS8700 gs (mock_bus 0xC7 burst) False =
    (Inr (),
     \<lparr>scale = Some (if gs = Some 4 then ACCEL_MG_LSB_4G
                     else if gs = Some 8 then ACCEL_MG_LSB_8G else ACCEL_MG_LSB_2G),
      i2c = \<lparr>reg_read = (\<lambda>_ reg. if reg = 0x0D then 0xC7 else 0x19),
             block_read = (\<lambda>_ _ _. burst),
             ops = [Read8 0x0D, Write8 0x2A 0,
                    Write8 0x0E (if gs = Some 4 then 1 else if gs = Some 8 then 2 else 0),
                    Write8 0x2B 2, Write8 0x5B 0, Write8 0x2A 5]\<rparr>\<rparr>)"
proof -
  have "reg_read (mock_bus 0xC7 burst) (ops (mock_bus 0xC7 burst)) 0x0D = 0xC7"
    by (simp add: mock_bus_def)
  from init_valid [OF this assms, of False] show ?thesis
    by (simp add: mock_bus_def)
qed

lemma field_values:
  "sint (signed_drop_bit 2 (field16 0x01 0x90)) = 100"
  "sint (signed_drop_bit 2 (field16 0xFE 0x70)) = - 100"
  "sint (signed_drop_bit 2 (field16 0x00 0x00)) = 0"
  "sint (field16 0x03 0xE8) = 1000"
  "sint (field16 0x00 0x00) = 0"
  by code_simp+

lemma product_values:
  "py_mul_int_float 100 ACCEL_MG_LSB_2G = 3516410589050883 / 144115188075855872"
  "py_mul_int_float (- 100) ACCEL_MG_LSB_2G = - (3516410589050883 / 144115188075855872)"
  "py_mul_int_float 1000 (float_literal (1 / 10)) = 100"
  "float_literal (244 / 10000) = 7032821178101767 / 288230376151711744"
  "float_literal (- (244 / 10000)) = - (7032821178101767 / 288230376151711744)"
  by code_simp+

lemma py_mul_int_float_0: "py_mul_int_float 0 s = 0"
  by (simp add: py_mul_int_float_def round_to_double_def)

lemma unpack_field: "unpack_h_be hi lo = sint (field16 hi lo)"
  by (simp add: field16_def unpack_h_be_sint)

lemma shift_field: "drop_bit 2 (unpack_h_be hi lo) = sint (signed_drop_bit 2 (field16 hi lo))"
  by (simp add: field16_def shift_short)

lemma get_fields:
  assumes "block_read (i2c self) (ops (i2c self)) 0x01 12
      = [a0, a1, a2, a3, a4, a5, m0, m1, m2, m3, m4, m5]"
    and "scale self = Some s"
  shows "fst (get self) =
    Inr ([spec_accel (field16 a0 a1) s, spec_accel (field16 a2 a3) s,
          spec_accel (field16 a4 a5) s],
         [spec_mag (field16 m0 m1), spec_mag (field16 m2 m3), spec_mag (field16 m4 m5)])"
  by (simp add: get_twelve [OF assms] spec_accel_def spec_mag_def unpack_field
      sint_signed_drop_bit_eq MAG_UT_LSB_def)

lemma spec_values:
  "spec_accel (field16 0x01 0x90) ACCEL_MG_LSB_2G = 3516410589050883 / 144115188075855872"
  "spec_accel (field16 0xFE 0x70) ACCEL_MG_LSB_2G = - (3516410589050883 / 144115188075855872)"
  "spec_accel (field16 0x00 0x00) s = 0"
  "spec_mag (field16 0x03 0xE8) = 100"
  "spec_mag (field16 0x00 0x00) = 0"
  by (simp_all only: spec_accel_def spec_mag_def field_values product_values py_mul_int_float_0)

lemma spec_accel_neg:
  assumes "sint w < 0" and "s \<in> {ACCEL_MG_LSB_2G, ACCEL_MG_LSB_4G, ACCEL_MG_LSB_8G}"
  shows "spec_accel w s < 0"
proof -
  have lo: "- 32768 \<le> sint w"
    using sint_ge [of w] by simp
  have d: "sint (signed_drop_bit 2 w) = sint w div 4"
    by (simp add: sint_signed_drop_bit_eq drop_bit_eq_div)
  have "sint w div 4 < 0" and "- (2 ^ 53) < sint w div 4"
    using assms(1) lo by simp_all
  moreover have "pow2 (- 1074) \<le> s"
    using assms(2) scale_constants_lower by auto
  ultimately show ?thesis
    unfolding spec_accel_def d by (rule py_mul_int_float_neg)
qed

section \<open>The temperature\<close>

text \<open>
  C7: \<^verbatim>\<open>temperature\<close> returns the byte read from the temperature register (0x51) as
  an 8-bit two's complement integer, between -128 and 127; the byte 0xFF gives -1 and the
  byte 0x19 gives 25. The call does one register read on the bus and nothing else.
\<close>

theorem temperature_signed_byte:
  "fst (temperature self) = sint (reg_read (i2c self) (ops (i2c self)) 0x51)
   \<and> - 128 \<le> fst (temperature self) \<and> fst (temperature self) \<le> 127
   \<and> snd (temperature self) = self\<lparr>i2c := (i2c self)\<lparr>ops := ops (i2c self) @ [Read8 0x51]\<rparr>\<rparr>
   \<and> fst (temperature (self\<lparr>i2c := (i2c self)\<lparr>reg_read := \<lambda>_ _. 0xFF\<rparr>\<rparr>)) = - 1
   \<and> fst (temperature (self\<lparr>i2c := (i2c self)\<lparr>reg_read := \<lambda>_ _. 0x19\<rparr>\<rparr>)) = 25"
proof -
  have val: "fst (temperature s) = sint (reg_read (i2c s) (ops (i2c s)) 0x51)" for s
    by (simp add: temperature_def read8_def FXOS8700_REGISTER_TEMPERATURE_def unpack_b_sint
        Let_def)
  have "- 128 \<le> sint w \<and> sint w \<le> 127" for w :: byte
    using sint_ge [of w] sint_lt [of w] by simp
  moreover have "snd (temperature self)
      = self\<lparr>i2c := (i2c self)\<lparr>ops := ops (i2c self) @ [Read8 0x51]\<rparr>\<rparr>"
    by (simp add: temperature_def read8_def FXOS8700_REGISTER_TEMPERATURE_def Let_def)
  ultimately show ?thesis
    by (simp add: val)
qed

section \<open>The constructor\<close>



text \<open>
  C2, as stated, fails: a requested range outside 2, 4 and 8 is only rejected in the last
  branch of the range selection, after the standby write. With the range 3 on a device
  that identifies itself, the constructor raises the invalid range error and the bus has
  seen one write, CTRL_REG1 = 0.
\<close>

theorem invalid_range_counterexample:
  "fst (FXOS8700 (Some 3) (mock_bus 0xC7 []) False) = Inl (InvalidAccelRange (Some 3))
   \<and> writes (ops (i2c (snd (FXOS8700 (Some 3) (mock_bus 0xC7 []) False)))) = [(0x2A, 0)]
   \<and> writes (ops (i2c (snd (FXOS8700 (Some 3) (mock_bus 0xC7 []) False)))) \<noteq> []"
proof -
  have "FXOS8700 (Some 3) (mock_bus 0xC7 []) False =
    (Inl (InvalidAccelRange (Some 3)),
     \<lparr>scale = None,
      i2c = (mock_bus 0xC7 [])\<lparr>ops := ops (mock_bus 0xC7 []) @ [Read8 0x0D, Write8 0x2A 0]\<rparr>\<rparr>)"
    by (rule init_invalid) (simp_all add: mock_bus_def)
  then show ?thesis
    by (simp add: mock_bus_def)
qed

text \<open>
  C2, amended: for every requested range other than 2, 4 and 8 (and not omitted), on a
  device that answers 0xC7 at WHO_AM_I, the constructor raises the invalid range error
  after exactly one register write, the standby write CTRL_REG1 = 0; no range, mode or
  activation register is written and the scale stays unset.
\<close>

theorem invalid_range_after_standby:
  assumes "reg_read b (ops b) 0x0D = 0xC7" and "g \<notin> {2, 4, 8}"
  shows "fst (FXOS8700 (Some g) b verbose) = Inl (InvalidAccelRange (Some g))
    \<and> ops (i2c (snd (FXOS8700 (Some g) b verbose))) = ops b @ [Read8 0x0D, Write8 0x2A 0]
    \<and> writes (ops (i2c (snd (FXOS8700 (Some g) b verbose)))) = writes (ops b) @ [(0x2A, 0)]
    \<and> scale (snd (FXOS8700 (Some g) b verbose)) = None"
proof -
  have "Some g \<notin> {None, Some 2, Some 4, Some 8}"
    using assms(2) by simp
  note r = init_invalid [OF assms(1) this, of verbose]
  show ?thesis
    by (simp add: r writes_append)
qed

theorem invalid_range_after_standby_witness:
  "fst (FXOS8700 (Some 16) (mock_bus 0xC7 []) True) = Inl (InvalidAccelRange (Some 16))
   \<and> writes (ops (i2c (snd (FXOS8700 (Some 16) (mock_bus 0xC7 []) True)))) = [(0x2A, 0)]
   \<and> scale (snd (FXOS8700 (Some 16) (mock_bus 0xC7 []) True)) = None"
  using invalid_range_after_standby [of "mock_bus 0xC7 []" 16 True]
  by (simp add: mock_bus_def)

text \<open>
  C4: whenever the constructor returns, the requested range was 2, 4, 8 or omitted, and
  the register writes it issued are exactly, in this order: CTRL_REG1 (0x2A) = 0,
  XYZ_DATA_CFG (0x0E) = the range code (0 for 2G and for the omitted range, 1 for 4G,
  2 for 8G), CTRL_REG2 (0x2B) = 0x02, MCTRL_REG1 (0x5B) = 0x00, CTRL_REG1 (0x2A) = 0x05.
\<close>

theorem configuration_write_order:
  assumes "fst (FXOS8700 gs b verbose) = Inr ()"
  shows "gs \<in> {None, Some 2, Some 4, Some 8}
    \<and> writes (ops (i2c (snd (FXOS8700 gs b verbose)))) =
        writes (ops b) @
        [(0x2A, 0), (0x0E, if gs = Some 4 then 1 else if gs = Some 8 then 2 else 0),
         (0x2B, 0x02), (0x5B, 0x00), (0x2A, 0x05)]"
proof (cases "reg_read b (ops b) 0x0D = 0xC7")
  case False
  from assms show ?thesis
    by (simp add: init_mismatch [OF False])
next
  case who: True
  show ?thesis
  proof (cases "gs \<in> {None, Some 2, Some 4, Some 8}")
    case False
    from assms show ?thesis
      by (simp add: init_invalid [OF who False])
  next
    case True
    have "writes (ops (i2c (snd (FXOS8700 gs b verbose)))) =
        writes (ops b) @
        [(0x2A, 0), (0x0E, if gs = Some 4 then 1 else if gs = Some 8 then 2 else 0),
         (0x2B, 0x02), (0x5B, 0x00), (0x2A, 0x05)]"
      by (simp add: init_valid [OF who True] writes_append)
    with True show ?thesis by blast
  qed
qed

theorem configuration_write_order_witness:
  "writes (ops (i2c (snd (FXOS8700 (Some 8) (mock_bus 0xC7 []) True)))) =
     [(0x2A, 0), (0x0E, 2), (0x2B, 0x02), (0x5B, 0x00), (0x2A, 0x05)]"
proof -
  have "fst (FXOS8700 (Some 8) (mock_bus 0xC7 []) True) = Inr ()"
    by (subst init_valid) (simp_all add: mock_bus_def)
  from configuration_write_order [OF this] show ?thesis
    by (simp add: mock_bus_def)
qed

section \<open>Samples\<close>

text \<open>
  C1, as stated, fails in its examples: the products are binary64 products. With the 2G
  scale, the burst whose first fields are 0x0190, 0xFE70 and 0x0000 decodes to
  \<open>3516410589050883 / 2\<^sup>5\<^sup>7\<close> (Python prints 0.024399999999999998), to its negation
  and to 0.0; the float 0.0244 is \<open>7032821178101767 / 2\<^sup>5\<^sup>8\<close>, one unit in the last place
  above.
\<close>

theorem accel_decode_counterexample:
  "fst (get (snd (FXOS8700 (Some 2)
        (mock_bus 0xC7 [0x01, 0x90, 0xFE, 0x70, 0x00, 0x00, 0x03, 0xE8, 0, 0, 0, 0]) False)))
      = Inr ([3516410589050883 / 144115188075855872,
              - (3516410589050883 / 144115188075855872), 0], [100, 0, 0])
   \<and> 3516410589050883 / 144115188075855872 \<noteq> float_literal (244 / 10000)
   \<and> - (3516410589050883 / 144115188075855872) \<noteq> float_literal (- (244 / 10000))"
proof -
  let ?burst = "[0x01, 0x90, 0xFE, 0x70, 0x00, 0x00, 0x03, 0xE8, 0, 0, 0, 0] :: byte list"
  let ?d = "snd (FXOS8700 (Some 2) (mock_bus 0xC7 ?burst) False)"
  have d: "?d = \<lparr>scale = Some ACCEL_MG_LSB_2G,
      i2c = \<lparr>reg_read = (\<lambda>_ reg. if reg = 0x0D then 0xC7 else 0x19),
             block_read = (\<lambda>_ _ _. ?burst),
             ops = [Read8 0x0D, Write8 0x2A 0, Write8 0x0E 0,
                    Write8 0x2B 2, Write8 0x5B 0, Write8 0x2A 5]\<rparr>\<rparr>"
    by (simp add: mock_driver)
  have b: "block_read (i2c ?d) (ops (i2c ?d)) 0x01 12 = ?burst"
    by (simp only: d) simp
  have s: "scale ?d = Some ACCEL_MG_LSB_2G"
    by (simp only: d) simp
  have "fst (get ?d) = Inr ([3516410589050883 / 144115188075855872,
              - (3516410589050883 / 144115188075855872), 0], [100, 0, 0])"
    by (simp only: get_fields [OF b s] spec_values)
  moreover have "(3516410589050883 / 144115188075855872 :: rat) \<noteq> float_literal (244 / 10000)"
    unfolding product_values by simp
  moreover have "- (3516410589050883 / 144115188075855872 :: rat)
      \<noteq> float_literal (- (244 / 10000))"
    unfolding product_values by simp
  ultimately show ?thesis
    by blast
qed

text \<open>
  C1, amended: for every 12-byte burst and every scale the constructor can store,
  \<^verbatim>\<open>get\<close> decodes each of the first three big-endian signed 16-bit fields by shifting
  it right arithmetically by two bits and multiplying by the stored scale, in binary64;
  every negative field gives a negative acceleration. With the 2G scale, 0x0190 decodes
  to the binary64 product of 100 and 0.000244, which is 0.024399999999999998, within
  \<open>10\<^sup>-\<^sup>1\<^sup>7\<close> of 0.0244; 0xFE70 decodes to its negation; 0x0000 decodes to 0.0.
\<close>

theorem accel_decode:
  assumes "block_read (i2c self) (ops (i2c self)) 0x01 12
      = [a0, a1, a2, a3, a4, a5, m0, m1, m2, m3, m4, m5]"
    and "scale self = Some s"
    and "s \<in> {ACCEL_MG_LSB_2G, ACCEL_MG_LSB_4G, ACCEL_MG_LSB_8G}"
  shows "(\<exists>mag. fst (get self) =
            Inr ([spec_accel (field16 a0 a1) s, spec_accel (field16 a2 a3) s,
                  spec_accel (field16 a4 a5) s], mag))
    \<and> (sint (field16 a0 a1) < 0 \<longrightarrow> spec_accel (field16 a0 a1) s < 0)
    \<and> (sint (field16 a2 a3) < 0 \<longrightarrow> spec_accel (field16 a2 a3) s < 0)
    \<and> (sint (field16 a4 a5) < 0 \<longrightarrow> spec_accel (field16 a4 a5) s < 0)
    \<and> spec_accel (field16 0x01 0x90) ACCEL_MG_LSB_2G = 3516410589050883 / 144115188075855872
    \<and> spec_accel (field16 0xFE 0x70) ACCEL_MG_LSB_2G
        = - (3516410589050883 / 144115188075855872)
    \<and> spec_accel (field16 0x00 0x00) ACCEL_MG_LSB_2G = 0
    \<and> \<bar>spec_accel (field16 0x01 0x90) ACCEL_MG_LSB_2G - 244 / 10000\<bar> < 1 / 10 ^ 17
    \<and> \<bar>spec_accel (field16 0xFE 0x70) ACCEL_MG_LSB_2G + 244 / 10000\<bar> < 1 / 10 ^ 17"
proof -
  have "\<exists>mag. fst (get self) =
            Inr ([spec_accel (field16 a0 a1) s, spec_accel (field16 a2 a3) s,
                  spec_accel (field16 a4 a5) s], mag)"
    by (simp add: get_fields [OF assms(1,2)])
  moreover have "sint w < 0 \<longrightarrow> spec_accel w s < 0" for w
    using spec_accel_neg [OF _ assms(3)] by blast
  moreover have x: "spec_accel (field16 0x01 0x90) ACCEL_MG_LSB_2G
      = 3516410589050883 / 144115188075855872"
    by (simp only: spec_accel_def field_values product_values)
  moreover have y: "spec_accel (field16 0xFE 0x70) ACCEL_MG_LSB_2G
      = - (3516410589050883 / 144115188075855872)"
    by (simp only: spec_accel_def field_values product_values)
  moreover have "spec_accel (field16 0x00 0x00) ACCEL_MG_LSB_2G = 0"
    by (simp only: spec_accel_def field_values py_mul_int_float_0)
  moreover have "\<bar>spec_accel (field16 0x01 0x90) ACCEL_MG_LSB_2G - 244 / 10000\<bar> < 1 / 10 ^ 17"
    unfolding x by simp
  moreover have "\<bar>spec_accel (field16 0xFE 0x70) ACCEL_MG_LSB_2G + 244 / 10000\<bar> < 1 / 10 ^ 17"
    unfolding y by simp
  ultimately show ?thesis
    by blast
qed

theorem accel_decode_witness:
  "(\<exists>mag. fst (get (snd (FXOS8700 (Some 2)
        (mock_bus 0xC7 [0x01, 0x90, 0xFE, 0x70, 0x00, 0x00, 0x03, 0xE8, 0, 0, 0, 0]) False)))
      = Inr ([3516410589050883 / 144115188075855872,
              - (3516410589050883 / 144115188075855872), 0], mag))
   \<and> sint (field16 0xFE 0x70) < 0
   \<and> spec_accel (field16 0xFE 0x70) ACCEL_MG_LSB_2G < 0"
proof -
  let ?burst = "[0x01, 0x90, 0xFE, 0x70, 0x00, 0x00, 0x03, 0xE8, 0, 0, 0, 0] :: byte list"
  let ?d = "snd (FXOS8700 (Some 2) (mock_bus 0xC7 ?burst) False)"
  have d: "?d = \<lparr>scale = Some ACCEL_MG_LSB_2G,
      i2c = \<lparr>reg_read = (\<lambda>_ reg. if reg = 0x0D then 0xC7 else 0x19),
             block_read = (\<lambda>_ _ _. ?burst),
             ops = [Read8 0x0D, Write8 0x2A 0, Write8 0x0E 0,
                    Write8 0x2B 2, Write8 0x5B 0, Write8 0x2A 5]\<rparr>\<rparr>"
    by (simp add: mock_driver)
  have b: "block_read (i2c ?d) (ops (i2c ?d)) 0x01 12 = ?burst"
    by (simp only: d) simp
  have s: "scale ?d = Some ACCEL_MG_LSB_2G"
    by (simp only: d) simp
  have neg: "sint (field16 0xFE 0x70) < 0"
    by code_simp
  from accel_decode [OF b s] neg show ?thesis
    by auto
qed

text \<open>
  C6: for every 12-byte burst, \<^verbatim>\<open>get\<close> decodes each of the last three big-endian
  signed 16-bit fields at full width, with no shift, times the constant 0.1; the field
  0x03E8 (1000) decodes to exactly 100.0.
\<close>

theorem mag_decode:
  assumes "block_read (i2c self) (ops (i2c self)) 0x01 12
      = [a0, a1, a2, a3, a4, a5, m0, m1, m2, m3, m4, m5]"
    and "scale self = Some s"
  shows "(\<exists>accel. fst (get self) =
            Inr (accel, [spec_mag (field16 m0 m1), spec_mag (field16 m2 m3),
                         spec_mag (field16 m4 m5)]))
    \<and> spec_mag (field16 0x03 0xE8) = 100"
proof -
  have "\<exists>accel. fst (get self) =
            Inr (accel, [spec_mag (field16 m0 m1), spec_mag (field16 m2 m3),
                         spec_mag (field16 m4 m5)])"
    by (simp add: get_twelve [OF assms] spec_mag_def unpack_field MAG_UT_LSB_def)
  moreover have "spec_mag (field16 0x03 0xE8) = 100"
    by (simp only: spec_mag_def field_values product_values)
  ultimately show ?thesis
    by blast
qed

theorem mag_decode_witness:
  "\<exists>accel. fst (get (snd (FXOS8700 (Some 4)
        (mock_bus 0xC7 [0x01, 0x90, 0xFE, 0x70, 0x00, 0x00, 0x03, 0xE8, 0, 0, 0, 0]) False)))
      = Inr (accel, [100, 0, 0])"
proof -
  let ?burst = "[0x01, 0x90, 0xFE, 0x70, 0x00, 0x00, 0x03, 0xE8, 0, 0, 0, 0] :: byte list"
  let ?d = "snd (FXOS8700 (Some 4) (mock_bus 0xC7 ?burst) False)"
  have d: "?d = \<lparr>scale = Some ACCEL_MG_LSB_4G,
      i2c = \<lparr>reg_read = (\<lambda>_ reg. if reg = 0x0D then 0xC7 else 0x19),
             block_read = (\<lambda>_ _ _. ?burst),
             ops = [Read8 0x0D, Write8 0x2A 0, Write8 0x0E 1,
                    Write8 0x2B 2, Write8 0x5B 0, Write8 0x2A 5]\<rparr>\<rparr>"
    by (simp add: mock_driver)
  have b: "block_read (i2c ?d) (ops (i2c ?d)) 0x01 12 = ?burst"
    by (simp only: d) simp
  have s: "scale ?d = Some ACCEL_MG_LSB_4G"
    by (simp only: d) simp
  from mag_decode [OF b s] show ?thesis
    by (auto simp add: spec_values)
qed

text \<open>
  C5: when the burst read does not return exactly 12 bytes, \<^verbatim>\<open>get\<close> raises (the
  \<^verbatim>\<open>struct.error\<close> of unpacking a buffer of the wrong size) and returns no vector.
\<close>

theorem short_burst_fails:
  assumes "length (block_read (i2c self) (ops (i2c self)) 0x01 12) \<noteq> 12"
  shows "fst (get self) = Inl StructError \<and> (\<forall>v. fst (get self) \<noteq> Inr v)"
  by (simp add: get_wrong_length [OF assms])

theorem short_burst_fails_witness:
  "fst (get (snd (FXOS8700 (Some 2) (mock_bus 0xC7 [0x01, 0x90, 0xFE, 0x70, 0x00]) False)))
     = Inl StructError"
proof -
  let ?burst = "[0x01, 0x90, 0xFE, 0x70, 0x00] :: byte list"
  let ?d = "snd (FXOS8700 (Some 2) (mock_bus 0xC7 ?burst) False)"
  have d: "?d = \<lparr>scale = Some ACCEL_MG_LSB_2G,
      i2c = \<lparr>reg_read = (\<lambda>_ reg. if reg = 0x0D then 0xC7 else 0x19),
             block_read = (\<lambda>_ _ _. ?burst),
             ops = [Read8 0x0D, Write8 0x2A 0, Write8 0x0E 0,
                    Write8 0x2B 2, Write8 0x5B 0, Write8 0x2A 5]\<rparr>\<rparr>"
    by (simp add: mock_driver)
  have "length (block_read (i2c ?d) (ops (i2c ?d)) 0x01 12) \<noteq> 12"
    by (simp only: d) simp
  from short_burst_fails [OF this] show ?thesis
    by simp
qed

text \<open>
  The arithmetic shift of a field by two bits only reads its upper 14 bits.
\<close>

lemma uint_drop_bit_2: "uint (drop_bit 2 (w :: 16 word)) = uint w div 4"
  by (simp add: drop_bit_eq_div uint_div_distrib)

lemma sint_shift_from_upper_bits:
  "sint (signed_drop_bit 2 (w :: 16 word)) =
     (if 8192 \<le> uint (drop_bit 2 w) then uint (drop_bit 2 w) - 16384 else uint (drop_bit 2 w))"
proof -
  have "sint (signed_drop_bit 2 w) = sint w div 4"
    by (simp add: sint_signed_drop_bit_eq drop_bit_eq_div)
  also have "\<dots> = (if 32768 \<le> uint w then (uint w - 65536) div 4 else uint w div 4)"
    by (simp add: sint_short)
  also have "\<dots> = (if 8192 \<le> uint w div 4 then uint w div 4 - 16384 else uint w div 4)"
  proof -
    have "(u - 65536) div 4 = u div 4 - 16384" for u :: int
      using div_mult_self1 [of 4 u "- 16384"] by simp
    moreover have "32768 \<le> u \<longleftrightarrow> 8192 \<le> u div 4" for u :: int
      by linarith
    ultimately show ?thesis
      by (simp only:)
  qed
  finally show ?thesis
    by (simp only: uint_drop_bit_2)
qed

lemma spec_accel_upper_bits:
  assumes "drop_bit 2 w = drop_bit 2 (w' :: 16 word)"
  shows "spec_accel w s = spec_accel w' s"
  by (simp only: spec_accel_def sint_shift_from_upper_bits assms)

text \<open>
  C10: two bursts of 12 bytes whose first three 16-bit fields agree in their upper 14
  bits (they may differ in the two least significant bits of each) decode, under the same
  scale, to the same acceleration triple.
\<close>

theorem padding_bits_ignored:
  assumes "block_read (i2c self) (ops (i2c self)) 0x01 12
      = [a0, a1, a2, a3, a4, a5, m0, m1, m2, m3, m4, m5]"
    and "block_read (i2c self') (ops (i2c self')) 0x01 12
      = [b0, b1, b2, b3, b4, b5, n0, n1, n2, n3, n4, n5]"
    and "scale self = Some s" and "scale self' = Some s"
    and "drop_bit 2 (field16 a0 a1) = drop_bit 2 (field16 b0 b1)"
    and "drop_bit 2 (field16 a2 a3) = drop_bit 2 (field16 b2 b3)"
    and "drop_bit 2 (field16 a4 a5) = drop_bit 2 (field16 b4 b5)"
  shows "\<exists>accel mag mag'. fst (get self) = Inr (accel, mag) \<and> fst (get self') = Inr (accel, mag')"
proof -
  have "spec_accel (field16 a0 a1) s = spec_accel (field16 b0 b1) s"
    and "spec_accel (field16 a2 a3) s = spec_accel (field16 b2 b3) s"
    and "spec_accel (field16 a4 a5) s = spec_accel (field16 b4 b5) s"
    by (rule spec_accel_upper_bits, rule assms)+
  then show ?thesis
    by (simp add: get_fields [OF assms(1,3)] get_fields [OF assms(2,4)])
qed

theorem padding_bits_ignored_witness:
  "\<exists>accel mag mag'.
     fst (get (snd (FXOS8700 (Some 2)
        (mock_bus 0xC7 [0x01, 0x90, 0xFE, 0x70, 0x00, 0x00, 0x03, 0xE8, 0, 0, 0, 0]) False)))
       = Inr (accel, mag)
   \<and> fst (get (snd (FXOS8700 (Some 2)
        (mock_bus 0xC7 [0x01, 0x93, 0xFE, 0x72, 0x00, 0x01, 0, 0, 0, 0, 0x7F, 0xFF]) False)))
       = Inr (accel, mag')"
proof -
  let ?b1 = "[0x01, 0x90, 0xFE, 0x70, 0x00, 0x00, 0x03, 0xE8, 0, 0, 0, 0] :: byte list"
  let ?b2 = "[0x01, 0x93, 0xFE, 0x72, 0x00, 0x01, 0, 0, 0, 0, 0x7F, 0xFF] :: byte list"
  let ?d1 = "snd (FXOS8700 (Some 2) (mock_bus 0xC7 ?b1) False)"
  let ?d2 = "snd (FXOS8700 (Some 2) (mock_bus 0xC7 ?b2) False)"
  have r1: "block_read (i2c ?d1) (ops (i2c ?d1)) 0x01 12 = ?b1"
    and r2: "block_read (i2c ?d2) (ops (i2c ?d2)) 0x01 12 = ?b2"
    and s1: "scale ?d1 = Some ACCEL_MG_LSB_2G" and s2: "scale ?d2 = Some ACCEL_MG_LSB_2G"
    by (simp_all add: mock_driver)
  have "drop_bit 2 (field16 0x01 0x90) = drop_bit 2 (field16 0x01 0x93)"
    and "drop_bit 2 (field16 0xFE 0x70) = drop_bit 2 (field16 0xFE 0x72)"
    and "drop_bit 2 (field16 0x00 0x00) = drop_bit 2 (field16 0x00 0x01)"
    by code_simp+
  from padding_bits_ignored [OF r1 r2 s1 s2 this] show ?thesis .
qed

section \<open>The scale\<close>

text \<open>
  C8: on a device that identifies itself, the constructor succeeds for each range 2, 4
  and 8, stores the scale constant of that range (the floats 0.000244, 0.000488 and
  0.000976) and writes the code of that range (0, 1, 2) to XYZ_DATA_CFG (0x0E), once;
  with the range omitted it does exactly what it does for the range 2.
\<close>

theorem range_selects_scale_and_code:
  assumes "reg_read b (ops b) 0x0D = 0xC7"
  shows "fst (FXOS8700 (Some 2) b verbose) = Inr ()
    \<and> scale (snd (FXOS8700 (Some 2) b verbose)) = Some (float_literal (244 / 1000000))
    \<and> writes_to 0x0E (ops (i2c (snd (FXOS8700 (Some 2) b verbose)))) = writes_to 0x0E (ops b) @ [0]
    \<and> fst (FXOS8700 (Some 4) b verbose) = Inr ()
    \<and> scale (snd (FXOS8700 (Some 4) b verbose)) = Some (float_literal (488 / 1000000))
    \<and> writes_to 0x0E (ops (i2c (snd (FXOS8700 (Some 4) b verbose)))) = writes_to 0x0E (ops b) @ [1]
    \<and> fst (FXOS8700 (Some 8) b verbose) = Inr ()
    \<and> scale (snd (FXOS8700 (Some 8) b verbose)) = Some (float_literal (976 / 1000000))
    \<and> writes_to 0x0E (ops (i2c (snd (FXOS8700 (Some 8) b verbose)))) = writes_to 0x0E (ops b) @ [2]
    \<and> FXOS8700 None b verbose = FXOS8700 (Some 2) b verbose"
proof -
  have w: "writes_to 0x0E (xs @ [Read8 0x0D, Write8 0x2A 0, Write8 0x0E c, Write8 0x2B 2,
      Write8 0x5B 0, Write8 0x2A 5] @ ys) = writes_to 0x0E xs @ [c]"
    if "ys = [] \<or> ys = [Read8 0x51]" for xs c ys
    using that by (auto simp add: writes_to_append) (simp_all add: writes_to_def)
  have v: "(if verbose then [Read8 0x51] else []) = [] \<or>
      (if verbose then [Read8 0x51] else []) = [Read8 0x51]"
    by simp
  have r2: "FXOS8700 (Some 2) b verbose = (Inr (),
     \<lparr>scale = Some ACCEL_MG_LSB_2G,
      i2c = b\<lparr>ops := ops b @ [Read8 0x0D, Write8 0x2A 0, Write8 0x0E 0, Write8 0x2B 2,
        Write8 0x5B 0, Write8 0x2A 5] @ (if verbose then [Read8 0x51] else [])\<rparr>\<rparr>)"
    by (subst init_valid [OF assms]) simp_all
  have r4: "FXOS8700 (Some 4) b verbose = (Inr (),
     \<lparr>scale = Some ACCEL_MG_LSB_4G,
      i2c = b\<lparr>ops := ops b @ [Read8 0x0D, Write8 0x2A 0, Write8 0x0E 1, Write8 0x2B 2,
        Write8 0x5B 0, Write8 0x2A 5] @ (if verbose then [Read8 0x51] else [])\<rparr>\<rparr>)"
    by (subst init_valid [OF assms]) simp_all
  have r8: "FXOS8700 (Some 8) b verbose = (Inr (),
     \<lparr>scale = Some ACCEL_MG_LSB_8G,
      i2c = b\<lparr>ops := ops b @ [Read8 0x0D, Write8 0x2A 0, Write8 0x0E 2, Write8 0x2B 2,
        Write8 0x5B 0, Write8 0x2A 5] @ (if verbose then [Read8 0x51] else [])\<rparr>\<rparr>)"
    by (subst init_valid [OF assms]) simp_all
  have r0: "FXOS8700 None b verbose = FXOS8700 (Some 2) b verbose"
    unfolding r2 by (subst init_valid [OF assms]) simp_all
  have "fst (FXOS8700 (Some 2) b verbose) = Inr ()"
    "scale (snd (FXOS8700 (Some 2) b verbose)) = Some (float_literal (244 / 1000000))"
    "writes_to 0x0E (ops (i2c (snd (FXOS8700 (Some 2) b verbose)))) = writes_to 0x0E (ops b) @ [0]"
    unfolding r2 using w [OF v] by (simp_all add: ACCEL_MG_LSB_2G_def)
  moreover have "fst (FXOS8700 (Some 4) b verbose) = Inr ()"
    "scale (snd (FXOS8700 (Some 4) b verbose)) = Some (float_literal (488 / 1000000))"
    "writes_to 0x0E (ops (i2c (snd (FXOS8700 (Some 4) b verbose)))) = writes_to 0x0E (ops b) @ [1]"
    unfolding r4 using w [OF v] by (simp_all add: ACCEL_MG_LSB_4G_def)
  moreover have "fst (FXOS8700 (Some 8) b verbose) = Inr ()"
    "scale (snd (FXOS8700 (Some 8) b verbose)) = Some (float_literal (976 / 1000000))"
    "writes_to 0x0E (ops (i2c (snd (FXOS8700 (Some 8) b verbose)))) = writes_to 0x0E (ops b) @ [2]"
    unfolding r8 using w [OF v] by (simp_all add: ACCEL_MG_LSB_8G_def)
  ultimately show ?thesis
    using r0 by blast
qed

theorem range_selects_scale_and_code_witness:
  "scale (snd (FXOS8700 (Some 2) (mock_bus 0xC7 []) False))
     = Some (9002011107970261 / 36893488147419103232)
   \<and> scale (snd (FXOS8700 (Some 4) (mock_bus 0xC7 []) False))
     = Some (9002011107970261 / 18446744073709551616)
   \<and> scale (snd (FXOS8700 (Some 8) (mock_bus 0xC7 []) False))
     = Some (9002011107970261 / 9223372036854775808)
   \<and> writes_to 0x0E (ops (i2c (snd (FXOS8700 (Some 8) (mock_bus 0xC7 []) False)))) = [2]
   \<and> fst (FXOS8700 None (mock_bus 0xC7 []) False) = Inr ()"
proof -
  have "reg_read (mock_bus 0xC7 []) (ops (mock_bus 0xC7 [])) 0x0D = 0xC7"
    by (simp add: mock_bus_def)
  note t = range_selects_scale_and_code [OF this, of False]
  note c = scale_constants [unfolded ACCEL_MG_LSB_2G_def ACCEL_MG_LSB_4G_def
      ACCEL_MG_LSB_8G_def]
  from t have "scale (snd (FXOS8700 (Some 2) (mock_bus 0xC7 []) False))
      = Some (float_literal (244 / 1000000))"
    and "scale (snd (FXOS8700 (Some 4) (mock_bus 0xC7 []) False))
      = Some (float_literal (488 / 1000000))"
    and "scale (snd (FXOS8700 (Some 8) (mock_bus 0xC7 []) False))
      = Some (float_literal (976 / 1000000))"
    by blast+
  then have "scale (snd (FXOS8700 (Some 2) (mock_bus 0xC7 []) False))
      = Some (9002011107970261 / 36893488147419103232)"
    and "scale (snd (FXOS8700 (Some 4) (mock_bus 0xC7 []) False))
      = Some (9002011107970261 / 18446744073709551616)"
    and "scale (snd (FXOS8700 (Some 8) (mock_bus 0xC7 []) False))
      = Some (9002011107970261 / 9223372036854775808)"
    unfolding c by blast+
  moreover from t have "writes_to 0x0E (ops (i2c (snd (FXOS8700 (Some 8) (mock_bus 0xC7 []) False))))
      = writes_to 0x0E (ops (mock_bus 0xC7 [])) @ [2]"
    by blast
  then have "writes_to 0x0E (ops (i2c (snd (FXOS8700 (Some 8) (mock_bus 0xC7 []) False)))) = [2]"
    by (simp add: mock_bus_def writes_to_def)
  moreover from t have "fst (FXOS8700 None (mock_bus 0xC7 []) False) = Inr ()"
    by simp
  ultimately show ?thesis
    by blast
qed

text \<open>
  \<^verbatim>\<open>get\<close> returns a sample whenever the burst has 12 bytes and the scale is set, and
  neither method changes what the device answers to a block read.
\<close>

lemma get_right_length:
  assumes "length (block_read (i2c self) (ops (i2c self)) 0x01 12) = 12"
    and "scale self = Some s"
  shows "\<exists>v. fst (get self) = Inr v"
  using assms
  by (simp add: get_def read_block_def struct_unpack_hhhhhh_def Let_def)

lemma block_read_get: "block_read (i2c (snd (get self))) = block_read (i2c self)"
  by (simp add: get_def read_block_def Let_def split: sum.splits option.splits)

lemma block_read_temperature:
  "block_read (i2c (snd (temperature self))) = block_read (i2c self)"
  by (simp add: temperature_def read8_def Let_def)

lemma block_read_do_calls: "block_read (i2c (do_calls cs self)) = block_read (i2c self)"
  unfolding do_calls_def
proof (induction cs arbitrary: self)
  case Nil
  show ?case by simp
next
  case (Cons c cs)
  show ?case
    by (cases c) (simp_all add: Cons.IH block_read_get block_read_temperature)
qed

text \<open>
  C9: the scale is unset on the fresh object; when the constructor returns, the scale
  holds one of the three scale constants, no sequence of calls of \<^verbatim>\<open>temperature\<close> and
  \<^verbatim>\<open>get\<close> changes it, and \<^verbatim>\<open>get\<close> on the driver, after any such sequence, never
  meets an unset scale (the \<^verbatim>\<open>TypeError\<close> of multiplying by \<^verbatim>\<open>None\<close>): on a burst of
  12 bytes it returns a sample.
\<close>

theorem scale_set_once:
  assumes "fst (FXOS8700 gs b verbose) = Inr ()"
  shows "scale (new_object b) = None
    \<and> scale (snd (FXOS8700 gs b verbose))
        \<in> {Some ACCEL_MG_LSB_2G, Some ACCEL_MG_LSB_4G, Some ACCEL_MG_LSB_8G}
    \<and> scale (do_calls cs (snd (FXOS8700 gs b verbose))) = scale (snd (FXOS8700 gs b verbose))
    \<and> fst (get (do_calls cs (snd (FXOS8700 gs b verbose)))) \<noteq> Inl TypeError
    \<and> (length (block_read (i2c (do_calls cs (snd (FXOS8700 gs b verbose))))
          (ops (i2c (do_calls cs (snd (FXOS8700 gs b verbose))))) 0x01 12) = 12 \<longrightarrow>
        (\<exists>v. fst (get (do_calls cs (snd (FXOS8700 gs b verbose)))) = Inr v))"
proof -
  let ?d = "snd (FXOS8700 gs b verbose)"
  have new: "scale (new_object b) = None"
    by (simp add: new_object_def)
  have set: "scale ?d \<in> {Some ACCEL_MG_LSB_2G, Some ACCEL_MG_LSB_4G, Some ACCEL_MG_LSB_8G}"
  proof (cases "reg_read b (ops b) 0x0D = 0xC7")
    case False
    with assms show ?thesis by (simp add: init_mismatch)
  next
    case who: True
    show ?thesis
    proof (cases "gs \<in> {None, Some 2, Some 4, Some 8}")
      case False
      with assms show ?thesis by (simp add: init_invalid [OF who])
    next
      case True
      show ?thesis by (simp add: init_valid [OF who True])
    qed
  qed
  have keep: "scale (do_calls cs ?d) = scale ?d"
    by (rule scale_do_calls)
  from set obtain s where "scale ?d = Some s"
    by auto
  with keep have s: "scale (do_calls cs ?d) = Some s"
    by simp
  then have no_err: "fst (get (do_calls cs ?d)) \<noteq> Inl TypeError"
    by (rule get_no_type_error)
  have "\<exists>v. fst (get (do_calls cs ?d)) = Inr v"
    if "length (block_read (i2c (do_calls cs ?d)) (ops (i2c (do_calls cs ?d))) 0x01 12) = 12"
    using that s by (rule get_right_length)
  with new set keep no_err show ?thesis
    by blast
qed

theorem scale_set_once_witness:
  "scale (do_calls [CallGet, CallTemperature, CallGet]
       (snd (FXOS8700 (Some 8)
         (mock_bus 0xC7 [0x01, 0x90, 0xFE, 0x70, 0x00, 0x00, 0x03, 0xE8, 0, 0, 0, 0]) False)))
     = Some ACCEL_MG_LSB_8G
   \<and> fst (get (do_calls [CallGet, CallTemperature, CallGet]
       (snd (FXOS8700 (Some 8)
         (mock_bus 0xC7 [0x01, 0x90, 0xFE, 0x70, 0x00, 0x00, 0x03, 0xE8, 0, 0, 0, 0]) False))))
     = Inr ([py_mul_int_float 100 ACCEL_MG_LSB_8G, py_mul_int_float (- 100) ACCEL_MG_LSB_8G, 0],
            [100, 0, 0])"
proof -
  let ?burst = "[0x01, 0x90, 0xFE, 0x70, 0x00, 0x00, 0x03, 0xE8, 0, 0, 0, 0] :: byte list"
  let ?d = "snd (FXOS8700 (Some 8) (mock_bus 0xC7 ?burst) False)"
  let ?d' = "do_calls [CallGet, CallTemperature, CallGet] ?d"
  have ok: "fst (FXOS8700 (Some 8) (mock_bus 0xC7 ?burst) False) = Inr ()"
    by (simp add: mock_driver)
  have s: "scale ?d = Some ACCEL_MG_LSB_8G"
    by (simp add: mock_driver)
  have b: "block_read (i2c ?d') (ops (i2c ?d')) 0x01 12 = ?burst"
    by (simp add: block_read_do_calls mock_driver)
  note t = scale_set_once [OF ok, of "[CallGet, CallTemperature, CallGet]"]
  from t s have s': "scale ?d' = Some ACCEL_MG_LSB_8G"
    by simp
  from t b have "\<exists>v. fst (get ?d') = Inr v"
    by simp
  then have "fst (get ?d') = Inr
      ([py_mul_int_float 100 ACCEL_MG_LSB_8G, py_mul_int_float (- 100) ACCEL_MG_LSB_8G, 0],
       [100, 0, 0])"
    by (simp only: get_fields [OF b s'] spec_values)
      (simp only: spec_accel_def field_values)
  with s' show ?thesis
    by blast
qed

end
